theory Spec2Isabelle
  imports Main
begin

section \<open>Data model of the code-generation graph\<close>

text \<open>
  The program is one script: it declares the channels of a state graph (\<open>GraphState\<close>),
  four node functions, a router for the conditional edge, the wiring of the graph, and
  \<open>main\<close>, which invokes the graph once. Values are modelled as they exist at run time:
  TypeScript's declared types are erased, so a field that a node leaves out of an object
  literal is \<open>None\<close> (JavaScript's \<open>undefined\<close>), and \<open>null\<close> is \<open>None\<close> as well.

  The object shape \<open>{code, imports, prefix}\<close> occurs three times in the source: as the
  element of \<open>solutions\<close> and as \<open>bestSolution\<close> (all three fields strings, checked by the
  schema), and as \<open>status.success\<close>, whose fields are read through \<open>?.\<close> and may be
  undefined. One record with the type of the field values as parameter covers both.
\<close>

record 'v solution =
  code :: 'v
  "imports" :: 'v
  prefix :: 'v

type_synonym candidate = "string solution"

text \<open>The element shape of \<open>testCaseSchema\<close>.\<close>

record testCase =
  testCode :: string
  prefix :: string

text \<open>
  \<open>status\<close>: both members are optional. The failure branch of \<open>validateCode\<close> builds
  \<open>{reason}\<close> only, so \<open>code\<close> of a failure may be absent at run time.
\<close>

record failure =
  reason :: string
  code :: "string option"

record status =
  success :: "string option solution option"
  failure :: "failure option"

text \<open>
  \<open>generation\<close>: a node's partial update carries only one of the two lists
  (\<open>{solutions: ...}\<close> or \<open>{testCases}\<close>); the other is undefined.
\<close>

record generation =
  solutions :: "candidate list option"
  testCases :: "testCase list option"

text \<open>
  Messages. The content of an \<open>AIMessage\<close> is \<open>JSON.stringify\<close> of an object holding the
  list just generated; the model keeps that object and leaves its rendering as text out.
\<close>

datatype content = Solutions_json "candidate list" | TestCases_json "testCase list"

datatype message = HumanMessage string | AIMessage string content

text \<open>
  The state a node receives. \<open>status\<close> has no value until \<open>validate_code\<close> has written
  it, and its only reader, the router, runs after that; the model starts it as a status
  with neither member.
\<close>

record state =
  messages :: "message list"
  userQuery :: string
  status :: status
  generation :: "generation option"
  bestSolution :: "candidate option"
  iterations :: int
  reflections :: "string list"

text \<open>
  A node returns an object with some of the channel keys. It is modelled as the list of
  its key/value pairs, in the order of the object literal.
\<close>

datatype channel_write =
    W_messages "message list"
  | W_userQuery string
  | W_status status
  | W_generation "generation option"
  | W_bestSolution "candidate option"
  | W_iterations int
  | W_reflections "string list"

type_synonym update = "channel_write list"

subsection \<open>The reducers of \<open>GraphState\<close>\<close>

text \<open>\<open>xs || []\<close> on a possibly undefined list.\<close>

definition or_empty :: "'a list option \<Rightarrow> 'a list" where
  "or_empty xs = (case xs of None \<Rightarrow> [] | Some ys \<Rightarrow> ys)"

text \<open>The reducer of the \<open>generation\<close> channel.\<close>

definition generation_reducer :: "generation option \<Rightarrow> generation option \<Rightarrow> generation option" where
  "generation_reducer prev next =
     (case prev of
        None \<Rightarrow> next
      | Some p \<Rightarrow>
          (case next of
             None \<Rightarrow> prev
           | Some n \<Rightarrow>
               Some \<lparr>solutions = Some (or_empty (solutions p) @ or_empty (solutions n)),
                     testCases = Some (or_empty (testCases p) @ or_empty (testCases n))\<rparr>))"

text \<open>
  One write merged into the state by the reducer of its channel: concatenation for
  \<open>messages\<close> and \<open>reflections\<close>, the new value for \<open>userQuery\<close> and \<open>status\<close>,
  \<open>generation_reducer\<close>, the sum for \<open>iterations\<close>. \<open>bestSolution\<close> is declared without a
  reducer: the channel keeps the value written (only \<open>rank_solutions\<close> writes it, once
  per step).
\<close>

fun reduce :: "state \<Rightarrow> channel_write \<Rightarrow> state" where
  "reduce s (W_messages y) = s\<lparr>messages := messages s @ y\<rparr>"
| "reduce s (W_userQuery y) = s\<lparr>userQuery := y\<rparr>"
| "reduce s (W_status y) = s\<lparr>status := y\<rparr>"
| "reduce s (W_generation y) = s\<lparr>generation := generation_reducer (generation s) y\<rparr>"
| "reduce s (W_bestSolution y) = s\<lparr>bestSolution := y\<rparr>"
| "reduce s (W_iterations y) = s\<lparr>iterations := iterations s + y\<rparr>"
| "reduce s (W_reflections y) = s\<lparr>reflections := reflections s @ y\<rparr>"

definition apply_update :: "state \<Rightarrow> update \<Rightarrow> state" where
  "apply_update s u = foldl reduce s u"

text \<open>The two lists of the pool as a reader sees them (\<open>generation?.solutions || []\<close>).\<close>

definition pool_solutions :: "generation option \<Rightarrow> candidate list" where
  "pool_solutions g = (case g of None \<Rightarrow> [] | Some p \<Rightarrow> or_empty (solutions p))"

definition pool_testCases :: "generation option \<Rightarrow> testCase list" where
  "pool_testCases g = (case g of None \<Rightarrow> [] | Some p \<Rightarrow> or_empty (testCases p))"

subsection \<open>The completion gateway and the scheduler\<close>

text \<open>
  \<open>model.withStructuredOutput(schema).invoke(prompt)\<close> either returns an object that
  conforms to the schema or throws. The prompt is fixed text around one value of the
  state (\<open>userQuery\<close>, or the serialised \<open>solutions\<close>), so the gateway is a function of that
  value and of the step at which it is asked; nothing else is assumed about it.
  \<open>settle_time\<close> is the time at which a node started in a step settles: the nodes of one
  step run concurrently and the environment decides which finishes first.
\<close>

datatype error = GatewayError string | BranchError string | GraphRecursionError

record env =
  invoke_codeGen :: "nat \<Rightarrow> string \<Rightarrow> error + candidate list"
  invoke_testCase :: "nat \<Rightarrow> string \<Rightarrow> error + testCase list"
  invoke_rank :: "nat \<Rightarrow> candidate list option \<Rightarrow> error + candidate"
  settle_time :: "nat \<Rightarrow> string \<Rightarrow> nat"

subsection \<open>The nodes\<close>

definition generateCode :: "env \<Rightarrow> nat \<Rightarrow> state \<Rightarrow> error + update" where
  "generateCode env k state =
     (case invoke_codeGen env k (userQuery state) of
        Inl e \<Rightarrow> Inl e
      | Inr codeGeneration \<Rightarrow>
          Inr [W_generation (Some \<lparr>solutions = Some codeGeneration, testCases = None\<rparr>),
               W_iterations 1,
               W_messages [AIMessage ''code_generation'' (Solutions_json codeGeneration)]])"

definition generateTestCases :: "env \<Rightarrow> nat \<Rightarrow> state \<Rightarrow> error + update" where
  "generateTestCases env k state =
     (case invoke_testCase env k (userQuery state) of
        Inl e \<Rightarrow> Inl e
      | Inr tcs \<Rightarrow>
          Inr [W_generation (Some \<lparr>solutions = None, testCases = Some tcs\<rparr>),
               W_messages [AIMessage ''test_case_generation'' (TestCases_json tcs)]])"

text \<open>\<open>generation?.solutions\<close>\<close>

definition opt_solutions :: "generation option \<Rightarrow> candidate list option" where
  "opt_solutions g = (case g of None \<Rightarrow> None | Some p \<Rightarrow> solutions p)"

definition rankSolutions :: "env \<Rightarrow> nat \<Rightarrow> state \<Rightarrow> error + update" where
  "rankSolutions env k state =
     (case invoke_rank env k (opt_solutions (generation state)) of
        Inl e \<Rightarrow> Inl e
      | Inr best \<Rightarrow> Inr [W_bestSolution (Some best)])"

text \<open>
  \<open>validateCode\<close>: the source fixes \<open>const isValid = true\<close> and then branches on it.
  \<open>validateCode_branches\<close> is the body with the test as an argument, so that the branch
  the constant cuts off can be evaluated too.
\<close>

definition isValid :: bool where
  "isValid = True"

definition validateCode_branches :: "bool \<Rightarrow> state \<Rightarrow> update" where
  "validateCode_branches valid state =
     (let c = map_option solution.code (bestSolution state);
          i = map_option solution.imports (bestSolution state);
          p = map_option solution.prefix (bestSolution state)
      in if valid
         then [W_status \<lparr>success = Some \<lparr>solution.code = c, imports = i, prefix = p\<rparr>, failure = None\<rparr>]
         else [W_status \<lparr>success = None,
                         failure = Some \<lparr>reason = ''The code is not valid'', code = None\<rparr>\<rparr>])"

definition validateCode :: "state \<Rightarrow> update" where
  "validateCode state = validateCode_branches isValid state"

subsection \<open>The router of the conditional edge\<close>

definition START :: string where
  "START = ''__start__''"

definition END :: string where
  "END = ''__end__''"

text \<open>\<open>state.status.failure?.reason\<close> and JavaScript's truth value of a string.\<close>

definition failure_reason :: "state \<Rightarrow> string option" where
  "failure_reason state = map_option reason (failure (status state))"

definition truthy :: "string option \<Rightarrow> bool" where
  "truthy v = (case v of None \<Rightarrow> False | Some s \<Rightarrow> s \<noteq> [])"

definition retryRouter :: "state \<Rightarrow> string" where
  "retryRouter state =
     (if \<not> truthy (failure_reason state) \<or> iterations state \<ge> 3 then END
      else ''call_model'')"

section \<open>The graph and its execution\<close>

text \<open>
  The wiring of \<open>graph\<close>: the nodes in the order they are added, the plain edges, and the
  conditional edge from \<open>validate_code\<close> with its path map.
\<close>

definition nodes :: "string list" where
  "nodes = [''generate_code'', ''generate_test_cases'', ''rank_solutions'', ''validate_code'']"

definition edges :: "(string \<times> string) list" where
  "edges = [(START, ''generate_code''),
            (''generate_code'', ''generate_test_cases''),
            (''generate_code'', ''rank_solutions''),
            (''generate_test_cases'', ''validate_code''),
            (''rank_solutions'', ''validate_code'')]"

definition pathMap :: "(string \<times> string) list" where
  "pathMap = [(END, END), (''generate_code'', ''generate_code'')]"

text \<open>A node's function, by the name it was added under.\<close>

definition run_node :: "env \<Rightarrow> nat \<Rightarrow> string \<Rightarrow> state \<Rightarrow> error + update" where
  "run_node env k n state =
     (if n = ''generate_code'' then generateCode env k state
      else if n = ''generate_test_cases'' then generateTestCases env k state
      else if n = ''rank_solutions'' then rankSolutions env k state
      else if n = ''validate_code'' then Inr (validateCode state)
      else Inr [])"

text \<open>
  The graph library runs the graph in steps. All nodes of a step start on the same state
  and run concurrently. If one throws, the run ends with the error of the node that
  failed first, and the writes of that step are not applied. Otherwise the updates are
  merged through the reducers, in the order of the nodes.
\<close>

fun failures :: "(string \<times> (error + update)) list \<Rightarrow> (string \<times> error) list" where
  "failures [] = []"
| "failures ((n, Inl e) # rs) = (n, e) # failures rs"
| "failures ((n, Inr u) # rs) = failures rs"

fun updates :: "(string \<times> (error + update)) list \<Rightarrow> update list" where
  "updates [] = []"
| "updates ((n, Inl e) # rs) = updates rs"
| "updates ((n, Inr u) # rs) = u # updates rs"

fun earliest :: "(string \<Rightarrow> nat) \<Rightarrow> (string \<times> error) list \<Rightarrow> (string \<times> error) option" where
  "earliest t [] = None"
| "earliest t (x # xs) =
     (case earliest t xs of
        None \<Rightarrow> Some x
      | Some y \<Rightarrow> if t (fst y) < t (fst x) then Some y else Some x)"

definition superstep :: "env \<Rightarrow> nat \<Rightarrow> string list \<Rightarrow> state \<Rightarrow> error + state" where
  "superstep env k tasks state =
     (let results = map (\<lambda>n. (n, run_node env k n state)) tasks
      in case earliest (settle_time env k) (failures results) of
           Some (n, e) \<Rightarrow> Inl e
         | None \<Rightarrow> Inr (foldl apply_update state (updates results)))"

text \<open>
  The conditional edge: the router's answer is looked up in the path map; an answer that
  the map does not know is an error of the run.
\<close>

definition branch :: "state \<Rightarrow> error + string" where
  "branch state =
     (case map_of pathMap (retryRouter state) of
        None \<Rightarrow> Inl (BranchError ''Branch condition returned unknown or null destination'')
      | Some d \<Rightarrow> Inr d)"

text \<open>
  The nodes of the next step: every node that an edge reaches from a node of this step,
  once each, and the destination of the conditional edge when \<open>validate_code\<close> ran.
\<close>

definition next_tasks :: "string list \<Rightarrow> state \<Rightarrow> error + string list" where
  "next_tasks tasks state =
     (let plain = map snd (filter (\<lambda>(a, b). a \<in> set tasks) edges)
      in if ''validate_code'' \<in> set tasks
         then (case branch state of
                 Inl e \<Rightarrow> Inl e
               | Inr d \<Rightarrow> Inr (filter (\<lambda>n. n \<in> set (d # plain)) nodes))
         else Inr (filter (\<lambda>n. n \<in> set plain) nodes))"

text \<open>
  A run: the state reached, or the error, with the state the error left behind; both
  with the names of the nodes started, in order.
\<close>

datatype outcome = Completed state "string list" | Failed error state "string list"

text \<open>
  The loop over the steps. The first argument is the number of steps left before the
  library gives up with its recursion error; \<open>k\<close> counts the steps done.
\<close>

fun run_graph :: "nat \<Rightarrow> env \<Rightarrow> nat \<Rightarrow> string list \<Rightarrow> state \<Rightarrow> string list \<Rightarrow> outcome" where
  "run_graph limit env k [] state trace = Completed state trace"
| "run_graph 0 env k (t # ts) state trace = Failed GraphRecursionError state trace"
| "run_graph (Suc limit) env k (t # ts) state trace =
     (case superstep env k (t # ts) state of
        Inl e \<Rightarrow> Failed e state (trace @ t # ts)
      | Inr state' \<Rightarrow>
          (case next_tasks (t # ts) state' of
             Inl e \<Rightarrow> Failed e state' (trace @ t # ts)
           | Inr ts' \<Rightarrow> run_graph limit env (Suc k) ts' state' (trace @ t # ts)))"

text \<open>
  \<open>invoke\<close>: the channels start at their defaults (\<open>iterations\<close> 0, \<open>reflections\<close> empty;
  the others have no value yet, written here as the empty list, the empty string, null
  and a status with neither member), the input is merged as an update, and the graph
  runs from the nodes that \<open>START\<close> leads to, for at most 25 steps (the library's
  default).
\<close>

definition channel_defaults :: state where
  "channel_defaults =
     \<lparr>messages = [], userQuery = [], status = \<lparr>success = None, failure = None\<rparr>,
      generation = None, bestSolution = None, iterations = 0, reflections = []\<rparr>"

definition recursionLimit :: nat where
  "recursionLimit = 25"

definition invoke :: "env \<Rightarrow> update \<Rightarrow> outcome" where
  "invoke env input =
     run_graph recursionLimit env 0
       (filter (\<lambda>n. n \<in> set (map snd (filter (\<lambda>(a, b). a = START) edges))) nodes)
       (apply_update channel_defaults input) []"

definition main_input :: update where
  "main_input =
     [W_messages [HumanMessage ''write a function to add two numbers''],
      W_userQuery ''write a function to add two numbers'',
      W_iterations 0,
      W_generation None]"

definition main :: "env \<Rightarrow> outcome" where
  "main env = invoke env main_input"

text \<open>What a run threw, the state it ended with, and the nodes it started.\<close>

fun thrown :: "outcome \<Rightarrow> error option" where
  "thrown (Completed s tr) = None"
| "thrown (Failed e s tr) = Some e"

fun final_state :: "outcome \<Rightarrow> state" where
  "final_state (Completed s tr) = s"
| "final_state (Failed e s tr) = s"

fun started :: "outcome \<Rightarrow> string list" where
  "started (Completed s tr) = tr"
| "started (Failed e s tr) = tr"

text \<open>The state of \<open>main\<close>'s run once \<open>generate_code\<close> has returned \<open>sols\<close>.\<close>

definition state_main_generated :: "candidate list \<Rightarrow> state" where
  "state_main_generated sols =
     \<lparr>messages = [HumanMessage ''write a function to add two numbers'',
                  AIMessage ''code_generation'' (Solutions_json sols)],
      userQuery = ''write a function to add two numbers'',
      status = \<lparr>success = None, failure = None\<rparr>,
      generation = Some \<lparr>solutions = Some sols, testCases = None\<rparr>,
      bestSolution = None, iterations = 1, reflections = []\<rparr>"

section \<open>Concrete inputs\<close>

definition cand_loop :: candidate where
  "cand_loop = \<lparr>solution.code = ''function add(a: number, b: number): number { return a + b; }'',
                imports = '''', prefix = ''direct sum''\<rparr>"

definition cand_reduce :: candidate where
  "cand_reduce = \<lparr>solution.code = ''const add = (...xs: number[]) => xs.reduce((s, x) => s + x, 0);'',
                  imports = '''', prefix = ''variadic sum''\<rparr>"

definition cand_other :: candidate where
  "cand_other = \<lparr>solution.code = ''const add = (a: bigint, b: bigint) => a + b;'',
                 imports = '''', prefix = ''rewritten by the ranker''\<rparr>"

definition tc_small :: testCase where
  "tc_small = \<lparr>testCode = ''expect(add(1, 2)).toBe(3)'', prefix = ''small numbers''\<rparr>"

definition tc_negative :: testCase where
  "tc_negative = \<lparr>testCode = ''expect(add(-1, 1)).toBe(0)'', prefix = ''negative numbers''\<rparr>"

text \<open>A gateway that answers every call; the ranker picks the first candidate.\<close>

definition env_ok :: env where
  "env_ok =
     \<lparr>invoke_codeGen = (\<lambda>k q. Inr [cand_loop, cand_reduce]),
      invoke_testCase = (\<lambda>k q. Inr [tc_small, tc_negative]),
      invoke_rank = (\<lambda>k xs. Inr cand_loop),
      settle_time = (\<lambda>k n. 0)\<rparr>"

text \<open>A gateway whose ranking answer is a candidate that was never generated.\<close>

definition env_outside :: env where
  "env_outside = env_ok\<lparr>invoke_rank := (\<lambda>k xs. Inr cand_other)\<rparr>"

text \<open>A gateway that throws on every test-case call.\<close>

definition env_tests_down :: env where
  "env_tests_down =
     env_ok\<lparr>invoke_testCase := (\<lambda>k q. Inl (GatewayError ''test cases: no conforming output''))\<rparr>"

text \<open>
  A gateway that throws on the test-case call and on the ranking call, with different
  errors, the ranking call failing first.
\<close>

definition env_both_down :: env where
  "env_both_down =
     env_tests_down\<lparr>invoke_rank := (\<lambda>k xs. Inl (GatewayError ''rank: rate limit'')),
                    settle_time := (\<lambda>k n. if n = ''rank_solutions'' then 0 else 1)\<rparr>"

text \<open>The state after a first \<open>generate_code\<close> with \<open>env_ok\<close>, and states around it.\<close>

definition state_generated :: state where
  "state_generated =
     \<lparr>messages = [HumanMessage ''add'',
                  AIMessage ''code_generation'' (Solutions_json [cand_loop, cand_reduce])],
      userQuery = ''add'', status = \<lparr>success = None, failure = None\<rparr>,
      generation = Some \<lparr>solutions = Some [cand_loop, cand_reduce], testCases = None\<rparr>,
      bestSolution = None, iterations = 1, reflections = []\<rparr>"

definition state_ranked :: state where
  "state_ranked = state_generated\<lparr>bestSolution := Some cand_reduce\<rparr>"

definition state_failed :: state where
  "state_failed =
     state_ranked\<lparr>status := \<lparr>success = None,
                              failure = Some \<lparr>reason = ''The code is not valid'', code = None\<rparr>\<rparr>\<rparr>"

definition state_blank_reason :: state where
  "state_blank_reason =
     state_ranked\<lparr>status := \<lparr>success = None,
                              failure = Some \<lparr>reason = '''', code = Some ''add''\<rparr>\<rparr>\<rparr>"

section \<open>The reducers\<close>

lemma or_empty_simps: "or_empty None = []" "or_empty (Some xs) = xs"
  by (simp_all add: or_empty_def)

lemma pool_simps:
  "pool_solutions None = []" "pool_solutions (Some g) = or_empty (solutions g)"
  "pool_testCases None = []" "pool_testCases (Some g) = or_empty (testCases g)"
  by (simp_all add: pool_solutions_def pool_testCases_def)

lemma pool_solutions_reducer:
  "pool_solutions (generation_reducer prev next) = pool_solutions prev @ pool_solutions next"
  by (simp add: generation_reducer_def pool_solutions_def or_empty_def split: option.splits)

lemma pool_testCases_reducer:
  "pool_testCases (generation_reducer prev next) = pool_testCases prev @ pool_testCases next"
  by (simp add: generation_reducer_def pool_testCases_def or_empty_def split: option.splits)

lemma reduce_grows:
  "\<exists>ys zs. pool_solutions (generation (reduce s w)) = pool_solutions (generation s) @ ys
         \<and> pool_testCases (generation (reduce s w)) = pool_testCases (generation s) @ zs"
  by (cases w) (simp_all add: pool_solutions_reducer pool_testCases_reducer)

lemma apply_update_grows:
  "\<exists>ys zs. pool_solutions (generation (apply_update s u)) = pool_solutions (generation s) @ ys
         \<and> pool_testCases (generation (apply_update s u)) = pool_testCases (generation s) @ zs"
  unfolding apply_update_def
proof (induction u arbitrary: s)
  case Nil
  show ?case by simp
next
  case (Cons w u)
  obtain ys zs where
    1: "pool_solutions (generation (reduce s w)) = pool_solutions (generation s) @ ys" and
    2: "pool_testCases (generation (reduce s w)) = pool_testCases (generation s) @ zs"
    using reduce_grows by blast
  obtain ys' zs' where
    3: "pool_solutions (generation (foldl reduce (reduce s w) u))
          = pool_solutions (generation (reduce s w)) @ ys'" and
    4: "pool_testCases (generation (foldl reduce (reduce s w) u))
          = pool_testCases (generation (reduce s w)) @ zs'"
    using Cons.IH by blast
  show ?case
    using 1 2 3 4 by simp
qed

lemma updates_grow:
  "\<exists>ys zs. pool_solutions (generation (foldl apply_update s us)) = pool_solutions (generation s) @ ys
         \<and> pool_testCases (generation (foldl apply_update s us)) = pool_testCases (generation s) @ zs"
proof (induction us arbitrary: s)
  case Nil
  show ?case by simp
next
  case (Cons u us)
  obtain ys zs where
    1: "pool_solutions (generation (apply_update s u)) = pool_solutions (generation s) @ ys" and
    2: "pool_testCases (generation (apply_update s u)) = pool_testCases (generation s) @ zs"
    using apply_update_grows by blast
  obtain ys' zs' where
    3: "pool_solutions (generation (foldl apply_update (apply_update s u) us))
          = pool_solutions (generation (apply_update s u)) @ ys'" and
    4: "pool_testCases (generation (foldl apply_update (apply_update s u) us))
          = pool_testCases (generation (apply_update s u)) @ zs'"
    using Cons.IH by blast
  show ?case
    using 1 2 3 4 by simp
qed

text \<open>
  C4. The two lists of the pool only grow. Merging a \<open>generation\<close> value puts its
  solutions and its test cases after everything accumulated before, and whatever
  sequence of updates a run merges (any writes to any channels, in any number), the
  lists before are kept as they are, at the front of the lists after: no merge removes
  or replaces an element.
\<close>

theorem generation_only_grows:
  "pool_solutions (generation (reduce s (W_generation next)))
       = pool_solutions (generation s) @ pool_solutions next
   \<and> pool_testCases (generation (reduce s (W_generation next)))
       = pool_testCases (generation s) @ pool_testCases next
   \<and> (\<exists>ys zs. pool_solutions (generation (foldl apply_update s us)) = pool_solutions (generation s) @ ys
            \<and> pool_testCases (generation (foldl apply_update s us)) = pool_testCases (generation s) @ zs)"
  using updates_grow [of s us] by (simp add: pool_solutions_reducer pool_testCases_reducer)

text \<open>A retry's solutions arrive behind the ones of the first pass.\<close>

theorem generation_only_grows_witness:
  "pool_solutions (generation (reduce state_generated
       (W_generation (Some \<lparr>solutions = Some [cand_other], testCases = None\<rparr>))))
     = [cand_loop, cand_reduce, cand_other]"
  using generation_only_grows [of state_generated
      "Some \<lparr>solutions = Some [cand_other], testCases = None\<rparr>" "[]"]
  by (simp add: state_generated_def pool_simps or_empty_simps)

section \<open>The nodes\<close>

text \<open>
  C3. \<open>validate_code\<close> reports success on every state: its update is one write to
  \<open>status\<close> whose \<open>success\<close> is set and whose \<open>failure\<close> is unset, that is the status of
  the merged state, and when there is a best solution the three fields of \<open>success\<close> are
  the three fields of \<open>bestSolution\<close>.
\<close>

theorem validateCode_always_success:
  "\<exists>r. validateCode s = [W_status \<lparr>success = Some r, failure = None\<rparr>]
      \<and> status (apply_update s' (validateCode s)) = \<lparr>success = Some r, failure = None\<rparr>
      \<and> (\<forall>b. bestSolution s = Some b \<longrightarrow>
            r = \<lparr>solution.code = Some (solution.code b), imports = Some (solution.imports b),
                 prefix = Some (solution.prefix b)\<rparr>)"
  by (auto simp: validateCode_def validateCode_branches_def isValid_def apply_update_def)

theorem validateCode_always_success_witness:
  "bestSolution state_ranked = Some cand_reduce
     \<and> validateCode state_ranked =
         [W_status \<lparr>success = Some \<lparr>solution.code = Some (solution.code cand_reduce),
                                     imports = Some (solution.imports cand_reduce),
                                     prefix = Some (solution.prefix cand_reduce)\<rparr>,
                     failure = None\<rparr>]"
  using validateCode_always_success [of state_ranked state_ranked]
  by (auto simp: state_ranked_def)

text \<open>
  C10. \<open>validate_code\<close> on a state without a best solution: the body reads
  \<open>bestSolution\<close> only through \<open>?.\<close>, so nothing throws (the function has no error
  result), and the status is still a success, with \<open>code\<close>, \<open>imports\<close> and \<open>prefix\<close> all
  undefined.
\<close>

theorem validateCode_null_bestSolution:
  "bestSolution s = None \<Longrightarrow>
     validateCode s =
       [W_status \<lparr>success = Some \<lparr>solution.code = None, imports = None, prefix = None\<rparr>,
                   failure = None\<rparr>]"
  by (simp add: validateCode_def validateCode_branches_def isValid_def)

theorem validateCode_null_bestSolution_witness:
  "bestSolution state_generated = None
     \<and> validateCode state_generated =
       [W_status \<lparr>success = Some \<lparr>solution.code = None, imports = None, prefix = None\<rparr>,
                   failure = None\<rparr>]"
proof -
  have h: "bestSolution state_generated = None"
    by (simp add: state_generated_def)
  show ?thesis
    using h validateCode_null_bestSolution [OF h] by simp
qed

text \<open>
  \<open>validate_code\<close> never writes a failure: whatever the state, the status it merges has
  \<open>failure\<close> unset. A statement about the failures it reports has no instance on this
  program.
\<close>

lemma validateCode_never_reports_failure:
  "failure (status (apply_update s' (validateCode s))) = None"
  by (simp add: validateCode_def validateCode_branches_def isValid_def apply_update_def)

text \<open>
  The branch that \<open>isValid\<close> cuts off, for the record: as written it builds a failure
  with the reason \<open>The code is not valid\<close> and without \<open>code\<close>. No call of
  \<open>validateCode\<close> reaches it.
\<close>

lemma validateCode_branches_else:
  "validateCode_branches False s =
     [W_status \<lparr>success = None,
                 failure = Some \<lparr>reason = ''The code is not valid'', code = None\<rparr>\<rparr>]"
  by (simp add: validateCode_branches_def)

text \<open>
  C6, as the code has it. \<open>rank_solutions\<close> asks the gateway with the solutions of the
  state it runs on and writes the gateway's answer, whatever it is, as \<open>bestSolution\<close>;
  it does not compare the answer with the list.
\<close>

theorem rankSolutions_writes_gateway_answer:
  "rankSolutions env k s = Inr u \<Longrightarrow>
     \<exists>best. invoke_rank env k (opt_solutions (generation s)) = Inr best
          \<and> u = [W_bestSolution (Some best)]
          \<and> bestSolution (apply_update s' u) = Some best"
  by (auto simp: rankSolutions_def apply_update_def split: sum.splits)

theorem rankSolutions_writes_gateway_answer_witness:
  "rankSolutions env_ok 1 state_generated = Inr [W_bestSolution (Some cand_loop)]
     \<and> invoke_rank env_ok 1 (Some [cand_loop, cand_reduce]) = Inr cand_loop
     \<and> bestSolution (apply_update state_generated [W_bestSolution (Some cand_loop)]) = Some cand_loop"
proof -
  have h: "rankSolutions env_ok 1 state_generated = Inr [W_bestSolution (Some cand_loop)]"
    by (simp add: rankSolutions_def env_ok_def)
  show ?thesis
    using h rankSolutions_writes_gateway_answer [OF h, of state_generated]
    by (simp add: env_ok_def)
qed

text \<open>
  The answer need not be one of the candidates: with a gateway that answers the ranking
  prompt with a rewritten candidate, \<open>bestSolution\<close> is a candidate that the list of
  solutions does not hold.
\<close>

theorem rankSolutions_outside_counterexample:
  "rankSolutions env_outside 1 state_generated = Inr [W_bestSolution (Some cand_other)]
     \<and> cand_other \<notin> set (pool_solutions (generation state_generated))"
  by (simp add: rankSolutions_def env_outside_def env_ok_def state_generated_def pool_solutions_def
      or_empty_def cand_other_def cand_loop_def cand_reduce_def)

text \<open>
  C9. What \<open>generate_test_cases\<close> appends to the test cases of the pool is the list the
  gateway returned under \<open>testCaseSchema\<close>, element for element: records of a
  \<open>testCode\<close> and a \<open>prefix\<close>, both strings. The solutions are left as they are.
\<close>

theorem generateTestCases_appends_schema_items:
  "generateTestCases env k s = Inr u \<Longrightarrow>
     \<exists>tcs :: testCase list.
        invoke_testCase env k (userQuery s) = Inr tcs
      \<and> pool_testCases (generation (apply_update s' u)) = pool_testCases (generation s') @ tcs
      \<and> pool_solutions (generation (apply_update s' u)) = pool_solutions (generation s')"
  by (auto simp: generateTestCases_def apply_update_def pool_testCases_reducer pool_solutions_reducer
      pool_simps or_empty_simps split: sum.splits)

theorem generateTestCases_appends_schema_items_witness:
  "generateTestCases env_ok 1 state_generated
       = Inr [W_generation (Some \<lparr>solutions = None, testCases = Some [tc_small, tc_negative]\<rparr>),
              W_messages [AIMessage ''test_case_generation'' (TestCases_json [tc_small, tc_negative])]]
   \<and> pool_testCases (generation (apply_update state_generated
         [W_generation (Some \<lparr>solutions = None, testCases = Some [tc_small, tc_negative]\<rparr>),
          W_messages [AIMessage ''test_case_generation'' (TestCases_json [tc_small, tc_negative])]]))
       = [\<lparr>testCode = ''expect(add(1, 2)).toBe(3)'', prefix = ''small numbers''\<rparr>,
          \<lparr>testCode = ''expect(add(-1, 1)).toBe(0)'', prefix = ''negative numbers''\<rparr>]"
proof -
  have h: "generateTestCases env_ok 1 state_generated
       = Inr [W_generation (Some \<lparr>solutions = None, testCases = Some [tc_small, tc_negative]\<rparr>),
              W_messages [AIMessage ''test_case_generation'' (TestCases_json [tc_small, tc_negative])]]"
    by (simp add: generateTestCases_def env_ok_def)
  show ?thesis
    using h generateTestCases_appends_schema_items [OF h, of state_generated]
    by (simp add: env_ok_def state_generated_def pool_simps or_empty_simps tc_small_def tc_negative_def)
qed

text \<open>
  C8. The two nodes that run side by side after \<open>generate_code\<close> start on the same
  state. The update of \<open>generate_test_cases\<close> (test cases and a message) and the update
  of \<open>rank_solutions\<close> (\<open>bestSolution\<close>) give the same state in whichever order they are
  merged.
\<close>

theorem branch_updates_commute:
  "generateTestCases env k s = Inr u1 \<Longrightarrow> rankSolutions env k s = Inr u2 \<Longrightarrow>
     apply_update (apply_update s' u1) u2 = apply_update (apply_update s' u2) u1"
  by (auto simp: generateTestCases_def rankSolutions_def apply_update_def split: sum.splits)

theorem branch_updates_commute_witness:
  "generateTestCases env_ok 1 state_generated
       = Inr [W_generation (Some \<lparr>solutions = None, testCases = Some [tc_small, tc_negative]\<rparr>),
              W_messages [AIMessage ''test_case_generation'' (TestCases_json [tc_small, tc_negative])]]
   \<and> rankSolutions env_ok 1 state_generated = Inr [W_bestSolution (Some cand_loop)]
   \<and> apply_update
        (apply_update state_generated
           [W_generation (Some \<lparr>solutions = None, testCases = Some [tc_small, tc_negative]\<rparr>),
            W_messages [AIMessage ''test_case_generation'' (TestCases_json [tc_small, tc_negative])]])
        [W_bestSolution (Some cand_loop)]
     = apply_update
        (apply_update state_generated [W_bestSolution (Some cand_loop)])
        [W_generation (Some \<lparr>solutions = None, testCases = Some [tc_small, tc_negative]\<rparr>),
         W_messages [AIMessage ''test_case_generation'' (TestCases_json [tc_small, tc_negative])]]"
proof -
  have h1: "generateTestCases env_ok 1 state_generated
       = Inr [W_generation (Some \<lparr>solutions = None, testCases = Some [tc_small, tc_negative]\<rparr>),
              W_messages [AIMessage ''test_case_generation'' (TestCases_json [tc_small, tc_negative])]]"
    by (simp add: generateTestCases_def env_ok_def)
  have h2: "rankSolutions env_ok 1 state_generated = Inr [W_bestSolution (Some cand_loop)]"
    by (simp add: rankSolutions_def env_ok_def)
  show ?thesis
    using h1 h2 branch_updates_commute [OF h1 h2, of state_generated] by simp
qed

section \<open>The router\<close>

text \<open>
  C1, as the code has it. The router tests \<open>failure?.reason\<close>, not \<open>failure\<close>: it
  answers \<open>END\<close> exactly when there is no failure, or the failure's reason is the empty
  string, or \<open>iterations\<close> has reached 3. In every other state its answer is not \<open>END\<close>.
\<close>

theorem retryRouter_end_iff:
  "retryRouter s = END \<longleftrightarrow>
     failure (status s) = None \<or> map_option reason (failure (status s)) = Some []
       \<or> iterations s \<ge> 3"
  by (cases "failure (status s)") (auto simp: retryRouter_def failure_reason_def truthy_def END_def)

theorem retryRouter_end_iff_witness:
  "failure (status state_failed) \<noteq> None
     \<and> map_option reason (failure (status state_failed)) \<noteq> Some []
     \<and> iterations state_failed < 3 \<and> retryRouter state_failed \<noteq> END"
  using retryRouter_end_iff [of state_failed]
  by (simp add: state_failed_def state_ranked_def state_generated_def)

text \<open>
  A failure with an empty reason, after one pass: the failure is set and \<open>iterations\<close> is
  below 3, and the router answers \<open>END\<close>.
\<close>

theorem retryRouter_blank_reason_counterexample:
  "failure (status state_blank_reason) \<noteq> None \<and> iterations state_blank_reason < 3
     \<and> retryRouter state_blank_reason = END"
  by (simp add: state_blank_reason_def state_ranked_def state_generated_def retryRouter_def
      failure_reason_def truthy_def)

text \<open>
  The router's other answer is \<open>call_model\<close>. The path map of the conditional edge knows
  \<open>END\<close> and \<open>generate_code\<close> only, so that answer ends the run with an error.
\<close>

lemma branch_END: "retryRouter s = END \<Longrightarrow> branch s = Inr END"
  by (simp add: branch_def pathMap_def)

lemma branch_retry:
  "retryRouter s \<noteq> END \<Longrightarrow>
     branch s = Inl (BranchError ''Branch condition returned unknown or null destination'')"
  by (simp add: branch_def pathMap_def retryRouter_def END_def split: if_splits)

section \<open>Runs\<close>

subsection \<open>The steps of the graph\<close>

lemma start_tasks:
  "filter (\<lambda>n. n \<in> set (map snd (filter (\<lambda>(a, b). a = START) edges))) nodes = [''generate_code'']"
  by (simp add: nodes_def edges_def START_def)

lemma next_after_generate:
  "next_tasks [''generate_code''] s = Inr [''generate_test_cases'', ''rank_solutions'']"
  by (simp add: next_tasks_def nodes_def edges_def START_def)

lemma next_after_branches:
  "next_tasks [''generate_test_cases'', ''rank_solutions''] s = Inr [''validate_code'']"
  by (simp add: next_tasks_def nodes_def edges_def START_def)

lemma next_after_validate_END:
  "retryRouter s = END \<Longrightarrow> next_tasks [''validate_code''] s = Inr []"
  by (simp add: next_tasks_def branch_END nodes_def edges_def START_def END_def)

lemma status_after_validate:
  "status (apply_update s (validateCode s')) =
     \<lparr>success = Some \<lparr>solution.code = map_option solution.code (bestSolution s'),
                       imports = map_option solution.imports (bestSolution s'),
                       prefix = map_option solution.prefix (bestSolution s')\<rparr>,
      failure = None\<rparr>"
  by (simp add: validateCode_def validateCode_branches_def isValid_def apply_update_def)

lemma router_after_validate: "retryRouter (apply_update s (validateCode s')) = END"
  by (simp add: retryRouter_def failure_reason_def truthy_def status_after_validate)

lemma superstep_generate:
  "superstep env k [''generate_code''] s =
     (case generateCode env k s of Inl e \<Rightarrow> Inl e | Inr u \<Rightarrow> Inr (apply_update s u))"
  by (simp add: superstep_def run_node_def split: sum.splits)

lemma superstep_validate:
  "superstep env k [''validate_code''] s = Inr (apply_update s (validateCode s))"
  by (simp add: superstep_def run_node_def)

lemma superstep_branches:
  "superstep env k [''generate_test_cases'', ''rank_solutions''] s =
     (case generateTestCases env k s of
        Inl e1 \<Rightarrow>
          (case rankSolutions env k s of
             Inl e2 \<Rightarrow>
               if settle_time env k ''rank_solutions'' < settle_time env k ''generate_test_cases''
               then Inl e2 else Inl e1
           | Inr u2 \<Rightarrow> Inl e1)
      | Inr u1 \<Rightarrow>
          (case rankSolutions env k s of
             Inl e2 \<Rightarrow> Inl e2
           | Inr u2 \<Rightarrow> Inr (apply_update (apply_update s u1) u2)))"
  by (simp add: superstep_def run_node_def split: sum.splits)

lemma run_validate:
  "run_graph (Suc n) env k [''validate_code''] s tr =
     Completed (apply_update s (validateCode s)) (tr @ [''validate_code''])"
  by (subst run_graph.simps(3))
     (simp add: superstep_validate next_after_validate_END router_after_validate del: run_graph.simps(3))

lemma run_branches:
  "run_graph (Suc (Suc n)) env k [''generate_test_cases'', ''rank_solutions''] s tr =
     (case superstep env k [''generate_test_cases'', ''rank_solutions''] s of
        Inl e \<Rightarrow> Failed e s (tr @ [''generate_test_cases'', ''rank_solutions''])
      | Inr s' \<Rightarrow> Completed (apply_update s' (validateCode s'))
                   (tr @ [''generate_test_cases'', ''rank_solutions'', ''validate_code'']))"
  by (subst run_graph.simps(3))
     (simp add: next_after_branches run_validate del: run_graph.simps(3) split: sum.splits)

lemma run_generate:
  "run_graph (Suc (Suc (Suc n))) env k [''generate_code''] s tr =
     (case generateCode env k s of
        Inl e \<Rightarrow> Failed e s (tr @ [''generate_code''])
      | Inr u \<Rightarrow>
          (case superstep env (Suc k) [''generate_test_cases'', ''rank_solutions''] (apply_update s u) of
             Inl e \<Rightarrow> Failed e (apply_update s u)
                       (tr @ [''generate_code'', ''generate_test_cases'', ''rank_solutions''])
           | Inr s' \<Rightarrow> Completed (apply_update s' (validateCode s'))
                        (tr @ [''generate_code'', ''generate_test_cases'', ''rank_solutions'',
                               ''validate_code''])))"
  by (subst run_graph.simps(3))
     (simp add: superstep_generate next_after_generate run_branches del: run_graph.simps(3)
        split: sum.splits)

lemma limit_25: "recursionLimit = Suc (Suc (Suc 22))"
  by (simp add: recursionLimit_def)

text \<open>
  Every run is one pass: \<open>generate_code\<close>, the two branches, \<open>validate_code\<close>, and the
  router's \<open>END\<close>; or it stops at the first error.
\<close>

lemma invoke_unfold:
  "invoke env input =
     (let s = apply_update channel_defaults input in
      case generateCode env 0 s of
        Inl e \<Rightarrow> Failed e s [''generate_code'']
      | Inr u \<Rightarrow>
          (case superstep env 1 [''generate_test_cases'', ''rank_solutions''] (apply_update s u) of
             Inl e \<Rightarrow> Failed e (apply_update s u)
                       [''generate_code'', ''generate_test_cases'', ''rank_solutions'']
           | Inr s' \<Rightarrow> Completed (apply_update s' (validateCode s'))
                        [''generate_code'', ''generate_test_cases'', ''rank_solutions'',
                         ''validate_code'']))"
  unfolding invoke_def start_tasks limit_25 run_generate by (simp add: Let_def split: sum.splits)

subsection \<open>The counter\<close>

lemma iterations_after_generate:
  "generateCode env k s = Inr u \<Longrightarrow> iterations (apply_update s u) = iterations s + 1"
  by (auto simp: generateCode_def apply_update_def split: sum.splits)

lemma iterations_after_branches:
  "superstep env k [''generate_test_cases'', ''rank_solutions''] s = Inr s' \<Longrightarrow>
     iterations s' = iterations s"
  by (auto simp: superstep_branches generateTestCases_def rankSolutions_def apply_update_def
      split: sum.splits if_splits)

lemma iterations_after_validate: "iterations (apply_update s (validateCode s')) = iterations s"
  by (simp add: validateCode_def validateCode_branches_def isValid_def apply_update_def)

lemma invoke_completed:
  assumes "invoke env input = Completed s tr"
  shows "tr = [''generate_code'', ''generate_test_cases'', ''rank_solutions'', ''validate_code'']
         \<and> iterations s = iterations (apply_update channel_defaults input) + 1"
  using assms
  by (auto simp: invoke_unfold Let_def iterations_after_generate iterations_after_branches
      iterations_after_validate split: sum.splits)

lemma main_start:
  "apply_update channel_defaults main_input =
     \<lparr>messages = [HumanMessage ''write a function to add two numbers''],
      userQuery = ''write a function to add two numbers'',
      status = \<lparr>success = None, failure = None\<rparr>,
      generation = None, bestSolution = None, iterations = 0, reflections = []\<rparr>"
  by (simp add: apply_update_def channel_defaults_def main_input_def generation_reducer_def)

lemma invoke_iterations_bound:
  "iterations (final_state (invoke env input)) \<le> iterations (apply_update channel_defaults input) + 1"
  by (auto simp: invoke_unfold Let_def iterations_after_generate iterations_after_branches
      iterations_after_validate split: sum.splits)

text \<open>
  C2. When the run of \<open>main\<close> completes, \<open>iterations\<close> is the number of times
  \<open>generate_code\<close> was started in that run; and however the run ends, \<open>iterations\<close> is
  at most 3 in the state it ends with. This holds for every gateway and every order in
  which the branches finish.
\<close>

theorem iterations_counts_generator_runs:
  "(main env = Completed s tr \<longrightarrow> iterations s = int (count_list tr ''generate_code''))
   \<and> iterations (final_state (main env)) \<le> 3"
  using invoke_completed [of env main_input s tr] invoke_iterations_bound [of env main_input]
  by (auto simp: main_def main_start)

theorem iterations_counts_generator_runs_witness:
  "main env_ok = Completed (final_state (main env_ok)) (started (main env_ok))
     \<and> iterations (final_state (main env_ok)) = int (count_list (started (main env_ok)) ''generate_code'')
     \<and> iterations (final_state (main env_ok)) \<le> 3"
proof -
  have h: "main env_ok = Completed (final_state (main env_ok)) (started (main env_ok))"
    by (simp add: main_def invoke_unfold main_start Let_def generateCode_def env_ok_def
      superstep_branches generateTestCases_def rankSolutions_def)
  show ?thesis
    using h iterations_counts_generator_runs
      [of env_ok "final_state (main env_ok)" "started (main env_ok)"]
    by simp
qed

subsection \<open>A gateway failure in the test-case branch\<close>

lemma main_generated:
  assumes "invoke_codeGen env 0 ''write a function to add two numbers'' = Inr sols"
  shows "main env =
     (case superstep env 1 [''generate_test_cases'', ''rank_solutions''] (state_main_generated sols) of
        Inl e \<Rightarrow> Failed e (state_main_generated sols)
                  [''generate_code'', ''generate_test_cases'', ''rank_solutions'']
      | Inr s' \<Rightarrow> Completed (apply_update s' (validateCode s'))
                   [''generate_code'', ''generate_test_cases'', ''rank_solutions'',
                    ''validate_code''])"
proof -
  let ?u = "[W_generation (Some \<lparr>solutions = Some sols, testCases = None\<rparr>),
             W_iterations 1,
             W_messages [AIMessage ''code_generation'' (Solutions_json sols)]]"
  have gen: "generateCode env 0 (apply_update channel_defaults main_input) = Inr ?u"
    using assms by (simp add: main_start generateCode_def)
  have merged: "apply_update (apply_update channel_defaults main_input) ?u = state_main_generated sols"
    unfolding main_start
    by (simp add: apply_update_def generation_reducer_def state_main_generated_def)
  show ?thesis
    by (simp add: main_def invoke_unfold Let_def gen merged split: sum.splits)
qed

text \<open>
  C7, as the code has it. In \<open>main\<close>'s run \<open>generate_code\<close> is step 0 and the two
  branches are step 1, so the first test-case call is the one of step 1. If the gateway
  throws \<open>e\<close> on it, the run ends with an error that no node caught: \<open>e\<close> itself, or the
  error of the ranking call when that call throws too and fails first. The test cases of
  the pool are still empty and \<open>validate_code\<close> was never started.
\<close>

theorem test_case_gateway_failure_ends_run:
  assumes "invoke_codeGen env 0 ''write a function to add two numbers'' = Inr sols"
      and "invoke_testCase env 1 ''write a function to add two numbers'' = Inl e"
  shows "\<exists>e'. thrown (main env) = Some e'
          \<and> (e' = e
              \<or> invoke_rank env 1 (Some sols) = Inl e'
                \<and> settle_time env 1 ''rank_solutions'' < settle_time env 1 ''generate_test_cases'')
          \<and> pool_testCases (generation (final_state (main env))) = []
          \<and> ''validate_code'' \<notin> set (started (main env))"
proof -
  have tests: "generateTestCases env (Suc 0) (state_main_generated sols) = Inl e"
    using assms(2) by (simp add: generateTestCases_def state_main_generated_def)
  have pool: "pool_testCases (generation (state_main_generated sols)) = []"
    by (simp add: state_main_generated_def pool_testCases_def or_empty_def)
  show ?thesis
  proof (cases "invoke_rank env 1 (Some sols)")
    case (Inl e2)
    then have rank: "rankSolutions env (Suc 0) (state_main_generated sols) = Inl e2"
      by (simp add: rankSolutions_def opt_solutions_def state_main_generated_def)
    show ?thesis
      using Inl pool
      by (simp add: main_generated [OF assms(1)] superstep_branches tests rank)
  next
    case (Inr best)
    then have rank:
      "rankSolutions env (Suc 0) (state_main_generated sols) = Inr [W_bestSolution (Some best)]"
      by (simp add: rankSolutions_def opt_solutions_def state_main_generated_def)
    show ?thesis
      using pool
      by (simp add: main_generated [OF assms(1)] superstep_branches tests rank)
  qed
qed

theorem test_case_gateway_failure_ends_run_witness:
  "invoke_codeGen env_tests_down 0 ''write a function to add two numbers'' = Inr [cand_loop, cand_reduce]
   \<and> invoke_testCase env_tests_down 1 ''write a function to add two numbers''
       = Inl (GatewayError ''test cases: no conforming output'')
   \<and> thrown (main env_tests_down) = Some (GatewayError ''test cases: no conforming output'')
   \<and> pool_testCases (generation (final_state (main env_tests_down))) = []
   \<and> ''validate_code'' \<notin> set (started (main env_tests_down))"
proof -
  have h1: "invoke_codeGen env_tests_down 0 ''write a function to add two numbers''
              = Inr [cand_loop, cand_reduce]"
    by (simp add: env_tests_down_def env_ok_def)
  have h2: "invoke_testCase env_tests_down 1 ''write a function to add two numbers''
              = Inl (GatewayError ''test cases: no conforming output'')"
    by (simp add: env_tests_down_def)
  have h3: "invoke_rank env_tests_down 1 (Some [cand_loop, cand_reduce]) = Inr cand_loop"
    by (simp add: env_tests_down_def env_ok_def)
  show ?thesis
    using h1 h2 h3 test_case_gateway_failure_ends_run [OF h1 h2] by auto
qed

text \<open>
  Both calls of step 1 throw, each its own error, and the ranking call fails first: the
  gateway has thrown on the first test-case call, and the error the run ends with is the
  other one.
\<close>

theorem both_gateway_calls_fail_counterexample:
  "invoke_codeGen env_both_down 0 ''write a function to add two numbers'' = Inr [cand_loop, cand_reduce]
   \<and> invoke_testCase env_both_down 1 ''write a function to add two numbers''
       = Inl (GatewayError ''test cases: no conforming output'')
   \<and> thrown (main env_both_down) = Some (GatewayError ''rank: rate limit'')
   \<and> thrown (main env_both_down) \<noteq> Some (GatewayError ''test cases: no conforming output'')"
proof -
  have h1: "invoke_codeGen env_both_down 0 ''write a function to add two numbers''
              = Inr [cand_loop, cand_reduce]"
    by (simp add: env_both_down_def env_tests_down_def env_ok_def)
  have h2: "invoke_testCase env_both_down 1 ''write a function to add two numbers''
              = Inl (GatewayError ''test cases: no conforming output'')"
    by (simp add: env_both_down_def env_tests_down_def)
  have tests: "generateTestCases env_both_down (Suc 0) (state_main_generated [cand_loop, cand_reduce])
                 = Inl (GatewayError ''test cases: no conforming output'')"
    using h2 by (simp add: generateTestCases_def state_main_generated_def)
  have rank: "rankSolutions env_both_down (Suc 0) (state_main_generated [cand_loop, cand_reduce])
                 = Inl (GatewayError ''rank: rate limit'')"
    by (simp add: rankSolutions_def env_both_down_def)
  have first: "settle_time env_both_down (Suc 0) ''rank_solutions''
                 < settle_time env_both_down (Suc 0) ''generate_test_cases''"
    by (simp add: env_both_down_def)
  have "thrown (main env_both_down) = Some (GatewayError ''rank: rate limit'')"
    by (simp add: main_generated [OF h1] superstep_branches tests rank first)
  then show ?thesis
    using h1 h2 by simp
qed

end
